theory Spec2Isabelle
  imports Main
begin

section \<open>The NFT minter front end: data model\<close>

text \<open>
  The application is a set of asynchronous event handlers over two pieces of component
  state: the \<open>App\<close> component (gallery, account, banner) and the \<open>NFTMinter\<close> component
  (form, signer, contract handle, minting flags). Every handler is embedded as a function
  from the state before to the state after, paired with the list of calls it issued to
  the outside world (wallet provider, contract, storage endpoint, HTTP), in order. The
  answers of the outside world are the fields of an environment record. Each handler is
  run to completion: no other handler is interleaved at its suspension points.
\<close>

text \<open>
  A value caught by a \<open>catch\<close> clause: an instance of \<open>Error\<close> with its message, or any
  other value with what it says (a rejected string, the \<open>message\<close> property of a plain
  object). The handlers ask whether it is an instance of \<open>Error\<close> and read the message
  only then.
\<close>

datatype thrown = Error string | NonError string

text \<open>
  The gallery item, type \<open>NFT\<close> of \<open>App.tsx\<close>. The field \<open>image\<close> is called \<open>image_ref\<close>
  here; it is \<open>None\<close> where the source stores \<open>undefined\<close> (an inline metadata document
  without an image).
\<close>

record nft =
  name :: string
  description :: string
  image_ref :: "string option"

text \<open>
  The fields a handler reads from a parsed metadata document; \<open>None\<close> is a missing
  property.
\<close>

record json_metadata =
  js_name :: "string option"
  js_description :: "string option"
  js_image :: "string option"

text \<open>The metadata document built by the mint flow (\<open>NFTMetadata\<close>).\<close>

record nft_metadata =
  md_name :: string
  md_description :: string
  md_image :: string

text \<open>The answer of \<open>fetch\<close>: \<open>ok\<close>, \<open>statusText\<close> and the outcome of \<open>json()\<close>;
  a parsed document \<open>None\<close> is the JSON value \<open>null\<close>.\<close>

record response =
  ok :: bool
  statusText :: string
  json :: "thrown + json_metadata option"

type_synonym file_data = string

datatype signer = Signer string

datatype contract = Contract string signer

datatype tx = Tx string

datatype receipt = Receipt string

text \<open>The calls a handler issues to the outside world.\<close>

datatype call =
    EthRequestAccounts
  | GetSigner
  | GetAddress
  | GetItemId
  | TokenURI int
  | Fetch string
  | UploadToIPFS file_data
  | UploadMetadataToIPFS nft_metadata
  | MintNFT string
  | TxWait tx
  | Reload

text \<open>
  The outside world. \<open>ethereum\<close> says whether \<open>window.ethereum\<close> is present;
  \<open>request_accounts\<close> is the answer to \<open>eth_requestAccounts\<close>; \<open>getItemId\<close> and
  \<open>tokenURI\<close> are the contract's read functions (the counter is a \<open>bigint\<close>);
  \<open>atob\<close> and \<open>json_parse\<close> are the platform's decoders. \<open>getIpfsUrl\<close>,
  \<open>uploadToIPFS\<close> and \<open>uploadMetadataToIPFS\<close> are imported from \<open>utils/ipfs\<close>; only
  their types are used here, so they are parameters.
\<close>

record env =
  ethereum :: bool
  request_accounts :: "thrown + string list"
  getSigner :: "thrown + signer"
  getAddress :: "signer \<Rightarrow> thrown + string"
  getItemId :: "thrown + int"
  tokenURI :: "int \<Rightarrow> thrown + string"
  atob :: "string \<Rightarrow> thrown + string"
  json_parse :: "string \<Rightarrow> thrown + json_metadata option"
  fetch :: "string \<Rightarrow> thrown + response"
  getIpfsUrl :: "string \<Rightarrow> string"
  uploadToIPFS :: "file_data \<Rightarrow> thrown + string"
  uploadMetadataToIPFS :: "nft_metadata \<Rightarrow> thrown + string"
  mintNFT :: "string \<Rightarrow> thrown + tx"
  tx_wait :: "tx \<Rightarrow> thrown + receipt"

text \<open>State of \<open>App\<close>. An account \<open>None\<close> is \<open>null\<close> or \<open>undefined\<close>.\<close>

record app_state =
  nfts :: "nft list"
  loading :: bool
  error :: "string option"
  account :: "string option"
  isConnecting :: bool

text \<open>\<open>MintingState\<close>; its field \<open>error\<close> is called \<open>mint_error\<close> here.\<close>

record minting_state =
  isMinting :: bool
  mint_error :: "string option"
  success :: bool

text \<open>
  State of \<open>NFTMinter\<close>. The state variable \<open>file\<close> is called \<open>selected_file\<close> and
  the text fields \<open>name\<close> and \<open>description\<close> are called \<open>form_name\<close> and
  \<open>form_description\<close> here.
\<close>

record minter_state =
  selected_file :: "file_data option"
  form_name :: string
  form_description :: string
  contract :: "contract option"
  signer :: "signer option"
  mintingState :: minting_state
  previewUrl :: "string option"

record system =
  app :: app_state
  minter :: minter_state

section \<open>JavaScript helpers\<close>

text \<open>\<open>!v\<close> for a string that may be \<open>null\<close> or \<open>undefined\<close>: the empty string is falsy.\<close>

fun falsy :: "string option \<Rightarrow> bool" where
  "falsy None = True"
| "falsy (Some s) = (s = [])"

text \<open>\<open>v || d\<close> for such a string and a string default.\<close>

fun or_default :: "string option \<Rightarrow> string \<Rightarrow> string" where
  "or_default None d = d"
| "or_default (Some s) d = (if s = [] then d else s)"

text \<open>\<open>xs[i]\<close>: \<open>undefined\<close> out of range.\<close>

definition index_js :: "'a list \<Rightarrow> nat \<Rightarrow> 'a option" where
  "index_js xs i = (if i < length xs then Some (xs ! i) else None)"

text \<open>\<open>s.split(c)\<close> for a one-character separator.\<close>

fun split_js :: "char \<Rightarrow> string \<Rightarrow> string list" where
  "split_js c [] = [[]]"
| "split_js c (x # xs) =
     (if x = c then [] # split_js c xs
      else (case split_js c xs of [] \<Rightarrow> [[x]] | y # ys \<Rightarrow> (x # y) # ys))"

text \<open>\<open>s.replace(pat, rep)\<close> with a string pattern: the first occurrence only.\<close>

fun replace_js :: "string \<Rightarrow> string \<Rightarrow> string \<Rightarrow> string" where
  "replace_js pat rep [] = (if pat = [] then rep else [])"
| "replace_js pat rep (c # cs) =
     (if take (length pat) (c # cs) = pat then rep @ drop (length pat) (c # cs)
      else c # replace_js pat rep cs)"

text \<open>Decimal rendering of a \<open>bigint\<close> in a template string.\<close>

fun show_nat :: "nat \<Rightarrow> string" where
  "show_nat n =
     (if n < 10 then [''0123456789'' ! n]
      else show_nat (n div 10) @ [''0123456789'' ! (n mod 10)])"

declare show_nat.simps [simp del]

definition show_int :: "int \<Rightarrow> string" where
  "show_int i = (if i < 0 then CHR ''-'' # show_nat (nat (- i)) else show_nat (nat i))"

text \<open>\<open>err instanceof Error ? err.message : d\<close>.\<close>

fun message_or :: "thrown \<Rightarrow> string \<Rightarrow> string" where
  "message_or (Error m) d = m"
| "message_or (NonError v) d = d"

section \<open>Wallet session: \<open>App.tsx\<close>\<close>

definition connectWallet :: "env \<Rightarrow> app_state \<Rightarrow> app_state \<times> call list" where
  "connectWallet e s =
     (if \<not> ethereum e then
        (s\<lparr>error := Some ''Please install MetaMask to use this application''\<rparr>, [])
      else
        (case request_accounts e of
           Inr accounts \<Rightarrow>
             (s\<lparr>account := index_js accounts 0, error := None, isConnecting := False\<rparr>,
              [EthRequestAccounts])
         | Inl err \<Rightarrow>
             (s\<lparr>error := Some ''Failed to connect wallet. Please try again.'',
                account := None, isConnecting := False\<rparr>,
              [EthRequestAccounts])))"

definition checkConnection :: "env \<Rightarrow> app_state \<Rightarrow> app_state \<times> call list" where
  "checkConnection e s =
     (if ethereum e then
        (case getSigner e of
           Inl err \<Rightarrow> (s\<lparr>account := None\<rparr>, [GetSigner])
         | Inr sg \<Rightarrow>
             (case getAddress e sg of
                Inl err \<Rightarrow> (s\<lparr>account := None\<rparr>, [GetSigner, GetAddress])
              | Inr address \<Rightarrow>
                  (s\<lparr>account := Some address, error := None\<rparr>, [GetSigner, GetAddress])))
      else (s, []))"

text \<open>The listener of \<open>App\<close>: \<open>setAccount(accounts[0] || null)\<close>.\<close>

definition handleAccountsChanged :: "string list \<Rightarrow> app_state \<Rightarrow> app_state" where
  "handleAccountsChanged accounts s =
     s\<lparr>account := (if falsy (index_js accounts 0) then None else index_js accounts 0)\<rparr>"

definition handleChainChanged :: "call list" where
  "handleChainChanged = [Reload]"

section \<open>Gallery loader: \<open>fetchNFTs\<close>\<close>

definition default_description :: string where
  "default_description = ''This is an NFT minted on the Westend Asset Hub''"

definition default_image :: string where
  "default_image = ''https://w3s.link/ipfs/QmXoypizjW3WknFiJnKLwHCnL72vedxjQkDDP1mXWo6uco''"

text \<open>
  The inner \<open>try\<close>: the part after the first comma is decoded and parsed. \<open>atob\<close> of
  \<open>undefined\<close> is \<open>atob\<close> of the string \<open>undefined\<close>; reading a property of \<open>null\<close>
  throws a \<open>TypeError\<close>.
\<close>

definition resolve_inline :: "env \<Rightarrow> int \<Rightarrow> string \<Rightarrow> thrown + nft" where
  "resolve_inline e tokenId uri =
     (case atob e (case index_js (split_js CHR '','' uri) 1 of
                     None \<Rightarrow> ''undefined'' | Some d \<Rightarrow> d) of
        Inl err \<Rightarrow> Inl err
      | Inr decodedData \<Rightarrow>
          (case json_parse e decodedData of
             Inl err \<Rightarrow> Inl err
           | Inr None \<Rightarrow> Inl (Error ''TypeError'')
           | Inr (Some metadata) \<Rightarrow>
               Inr \<lparr>name = or_default (js_name metadata) (''NFT #'' @ show_int tokenId),
                    description = or_default (js_description metadata) default_description,
                    image_ref = js_image metadata\<rparr>))"

text \<open>The fallback in the \<open>catch\<close> of the inner \<open>try\<close>; it issues one \<open>fetch\<close>.\<close>

definition ipfs_url :: "env \<Rightarrow> string \<Rightarrow> string" where
  "ipfs_url e uri = getIpfsUrl e (replace_js ''ipfs://'' [] uri)"

definition resolve_ipfs :: "env \<Rightarrow> int \<Rightarrow> string \<Rightarrow> thrown + nft" where
  "resolve_ipfs e tokenId uri =
     (case fetch e (ipfs_url e uri) of
        Inl err \<Rightarrow> Inl err
      | Inr resp \<Rightarrow>
          (if \<not> ok resp then Inl (Error (''Failed to fetch metadata: '' @ statusText resp))
           else
             (case json resp of
                Inl err \<Rightarrow> Inl err
              | Inr None \<Rightarrow> Inl (Error ''TypeError'')
              | Inr (Some metadata) \<Rightarrow>
                  Inr \<lparr>name = or_default (js_name metadata) (''NFT #'' @ show_int tokenId),
                       description = or_default (js_description metadata) default_description,
                       image_ref =
                         Some (case js_image metadata of
                                 None \<Rightarrow> default_image
                               | Some img \<Rightarrow>
                                   (if img = [] then default_image else ipfs_url e img))\<rparr>)))"

text \<open>The \<open>try\<close> around one token: the items pushed to \<open>nftPromises\<close> and the calls made.\<close>

definition resolve_token :: "env \<Rightarrow> int \<Rightarrow> nft list \<times> call list" where
  "resolve_token e tokenId =
     (case tokenURI e tokenId of
        Inl err \<Rightarrow> ([], [TokenURI tokenId])
      | Inr uri \<Rightarrow>
          (case resolve_inline e tokenId uri of
             Inr item \<Rightarrow> ([item], [TokenURI tokenId])
           | Inl metadataError \<Rightarrow>
               (case resolve_ipfs e tokenId uri of
                  Inr item \<Rightarrow> ([item], [TokenURI tokenId, Fetch (ipfs_url e uri)])
                | Inl ipfsError \<Rightarrow> ([], [TokenURI tokenId, Fetch (ipfs_url e uri)]))))"

definition fetchNFTs :: "env \<Rightarrow> app_state \<Rightarrow> app_state \<times> call list" where
  "fetchNFTs e s =
     (if falsy (account s) then (s\<lparr>loading := False\<rparr>, [])
      else if \<not> ethereum e then
        (s\<lparr>error := Some ''Please install MetaMask'', loading := False\<rparr>, [])
      else
        (case getSigner e of
           Inl err \<Rightarrow>
             (s\<lparr>error := Some (message_or err ''Failed to fetch NFTs''), loading := False\<rparr>,
              [GetSigner])
         | Inr sg \<Rightarrow>
             (case getItemId e of
                Inl err \<Rightarrow>
                  (s\<lparr>error := Some ''Could not fetch your NFTs. Please try again later.'',
                     loading := False\<rparr>,
                   [GetSigner, GetItemId])
              | Inr currentId \<Rightarrow>
                  (if currentId = 0 then
                     (s\<lparr>nfts := [], loading := False\<rparr>, [GetSigner, GetItemId])
                   else
                     (s\<lparr>nfts := fst (resolve_token e (currentId - 1)), loading := False\<rparr>,
                      [GetSigner, GetItemId] @ snd (resolve_token e (currentId - 1)))))))"

definition handleNFTCreated :: "nft \<Rightarrow> app_state \<Rightarrow> app_state" where
  "handleNFTCreated item s = s\<lparr>nfts := nfts s @ [item]\<rparr>"

text \<open>What the page shows of the gallery: nothing without an account or while loading.\<close>

definition displayed_gallery :: "app_state \<Rightarrow> nft list option" where
  "displayed_gallery s =
     (if falsy (account s) then None else if loading s then None else Some (nfts s))"

section \<open>Mint form: the \<open>NFTMinter\<close> component\<close>

definition NFT_MINTER_CONTRACT_ADDRESS :: string where
  "NFT_MINTER_CONTRACT_ADDRESS = ''0x92fd6660B83F6a37A782A24385A9db5460c1D749''"

text \<open>The effect that follows a change of the \<open>account\<close> property.\<close>

definition init :: "env \<Rightarrow> string option \<Rightarrow> minter_state \<Rightarrow> minter_state \<times> call list" where
  "init e acct m =
     (if ethereum e \<and> \<not> falsy acct then
        (case getSigner e of
           Inr sg \<Rightarrow>
             (m\<lparr>signer := Some sg,
                contract := Some (Contract NFT_MINTER_CONTRACT_ADDRESS sg)\<rparr>,
              [GetSigner])
         | Inl err \<Rightarrow>
             (m\<lparr>mintingState :=
                  \<lparr>isMinting = False,
                   mint_error = Some ''Failed to initialize wallet connection'',
                   success = False\<rparr>\<rparr>,
              [GetSigner]))
      else (m, []))"

text \<open>
  The listener of \<open>NFTMinter\<close>. With a non-empty list it awaits the signer outside any
  \<open>try\<close>: a failure there leaves the state as it was.
\<close>

definition minter_handleAccountsChanged ::
  "env \<Rightarrow> string list \<Rightarrow> minter_state \<Rightarrow> minter_state \<times> call list" where
  "minter_handleAccountsChanged e accounts m =
     (if length accounts = 0 then (m\<lparr>signer := None, contract := None\<rparr>, [])
      else
        (case getSigner e of
           Inl err \<Rightarrow> (m, [GetSigner])
         | Inr sg \<Rightarrow>
             (m\<lparr>signer := Some sg,
                contract := Some (Contract NFT_MINTER_CONTRACT_ADDRESS sg)\<rparr>,
              [GetSigner])))"

definition set_mint_error :: "string \<Rightarrow> system \<Rightarrow> system" where
  "set_mint_error msg sys =
     sys\<lparr>minter := (minter sys)\<lparr>mintingState :=
       \<lparr>isMinting = False, mint_error = Some msg, success = False\<rparr>\<rparr>\<rparr>"

text \<open>The statements after the last \<open>await\<close> of the \<open>try\<close> block.\<close>

definition mint_succeeded :: "string \<Rightarrow> system \<Rightarrow> system" where
  "mint_succeeded imageUri sys =
     \<lparr>app = handleNFTCreated
              \<lparr>name = form_name (minter sys),
               description = form_description (minter sys),
               image_ref = Some imageUri\<rparr> (app sys),
      minter = (minter sys)
        \<lparr>mintingState := \<lparr>isMinting = False, mint_error = None, success = True\<rparr>,
         selected_file := None, form_name := [], form_description := [],
         previewUrl := None\<rparr>\<rparr>"

definition metadata_of :: "system \<Rightarrow> string \<Rightarrow> nft_metadata" where
  "metadata_of sys imageUri =
     \<lparr>md_name = form_name (minter sys), md_description = form_description (minter sys),
      md_image = imageUri\<rparr>"

text \<open>
  The \<open>try\<close> block of \<open>handleMint\<close> and its \<open>catch\<close>. The flags written before the
  block (\<open>isMinting: true\<close>) are overwritten on every path.
\<close>

definition mint_flow :: "env \<Rightarrow> file_data \<Rightarrow> system \<Rightarrow> system \<times> call list" where
  "mint_flow e f sys =
     (case uploadToIPFS e f of
        Inl err \<Rightarrow>
          (set_mint_error (message_or err ''Failed to mint NFT'') sys, [UploadToIPFS f])
      | Inr imageUri \<Rightarrow>
          (case uploadMetadataToIPFS e (metadata_of sys imageUri) of
             Inl err \<Rightarrow>
               (set_mint_error (message_or err ''Failed to mint NFT'') sys,
                [UploadToIPFS f, UploadMetadataToIPFS (metadata_of sys imageUri)])
           | Inr metadataUri \<Rightarrow>
               (case mintNFT e metadataUri of
                  Inl err \<Rightarrow>
                    (set_mint_error (message_or err ''Failed to mint NFT'') sys,
                     [UploadToIPFS f, UploadMetadataToIPFS (metadata_of sys imageUri),
                      MintNFT metadataUri])
                | Inr t \<Rightarrow>
                    (case tx_wait e t of
                       Inl err \<Rightarrow>
                         (set_mint_error (message_or err ''Failed to mint NFT'') sys,
                          [UploadToIPFS f, UploadMetadataToIPFS (metadata_of sys imageUri),
                           MintNFT metadataUri, TxWait t])
                     | Inr rcpt \<Rightarrow>
                         (mint_succeeded imageUri sys,
                          [UploadToIPFS f, UploadMetadataToIPFS (metadata_of sys imageUri),
                           MintNFT metadataUri, TxWait t])))))"

definition handleMint :: "env \<Rightarrow> system \<Rightarrow> system \<times> call list" where
  "handleMint e sys =
     (case selected_file (minter sys) of
        None \<Rightarrow> (set_mint_error ''Please fill in all fields'' sys, [])
      | Some f \<Rightarrow>
          (if form_name (minter sys) = [] \<or> form_description (minter sys) = [] then
             (set_mint_error ''Please fill in all fields'' sys, [])
           else if falsy (account (app sys)) \<or> contract (minter sys) = None
                   \<or> signer (minter sys) = None then
             (set_mint_error ''Please connect your wallet first'' sys, [])
           else mint_flow e f sys))"

section \<open>Delivery of an \<open>accountsChanged\<close> event\<close>

text \<open>
  Both components listen. After the listeners, the effects that depend on \<open>account\<close>
  (\<open>init\<close> of \<open>NFTMinter\<close>, then \<open>fetchNFTs\<close> of \<open>App\<close>) run if the account changed.
\<close>

definition account_effects :: "env \<Rightarrow> string option \<Rightarrow> system \<Rightarrow> system \<times> call list" where
  "account_effects e old sys =
     (if account (app sys) = old then (sys, [])
      else
        (\<lparr>app = fst (fetchNFTs e (app sys)),
          minter = fst (init e (account (app sys)) (minter sys))\<rparr>,
         snd (init e (account (app sys)) (minter sys)) @ snd (fetchNFTs e (app sys))))"

definition run_listeners :: "env \<Rightarrow> string list \<Rightarrow> system \<Rightarrow> system \<times> call list" where
  "run_listeners e accounts sys =
     (\<lparr>app = handleAccountsChanged accounts (app sys),
       minter = fst (minter_handleAccountsChanged e accounts (minter sys))\<rparr>,
      snd (minter_handleAccountsChanged e accounts (minter sys)))"

definition accountsChanged :: "env \<Rightarrow> string list \<Rightarrow> system \<Rightarrow> system \<times> call list" where
  "accountsChanged e accounts sys =
     (fst (account_effects e (account (app sys)) (fst (run_listeners e accounts sys))),
      snd (run_listeners e accounts sys)
        @ snd (account_effects e (account (app sys)) (fst (run_listeners e accounts sys))))"

section \<open>Reading a list of calls\<close>

fun tokenURI_requests :: "call list \<Rightarrow> int list" where
  "tokenURI_requests [] = []"
| "tokenURI_requests (TokenURI i # cs) = i # tokenURI_requests cs"
| "tokenURI_requests (c # cs) = tokenURI_requests cs"

fun fetch_requests :: "call list \<Rightarrow> string list" where
  "fetch_requests [] = []"
| "fetch_requests (Fetch u # cs) = u # fetch_requests cs"
| "fetch_requests (c # cs) = fetch_requests cs"

section \<open>Concrete worlds and states\<close>

text \<open>
  A world in which everything succeeds: one authorised account, three tokens minted,
  and a location string that carries the document \<open>{}\<close> inline.
\<close>

definition world :: env where
  "world =
     \<lparr>ethereum = True,
      request_accounts = Inr [''0xA''],
      getSigner = Inr (Signer ''0xA''),
      getAddress = (\<lambda>sg. Inr ''0xA''),
      getItemId = Inr 3,
      tokenURI = (\<lambda>i. Inr ''data:application/json;base64,e30=''),
      atob = (\<lambda>d. if d = ''e30='' then Inr ''{}'' else Inl (Error ''InvalidCharacterError'')),
      json_parse =
        (\<lambda>d. if d = ''{}''
             then Inr (Some \<lparr>js_name = None, js_description = None, js_image = None\<rparr>)
             else Inl (Error ''SyntaxError'')),
      fetch = (\<lambda>u. Inl (Error ''Failed to fetch'')),
      getIpfsUrl = (\<lambda>cid. ''https://w3s.link/ipfs/'' @ cid),
      uploadToIPFS = (\<lambda>f. Inr ''ipfs://img''),
      uploadMetadataToIPFS = (\<lambda>m. Inr ''ipfs://meta''),
      mintNFT = (\<lambda>u. Inr (Tx ''0x1'')),
      tx_wait = (\<lambda>t. Inr (Receipt ''0x1''))\<rparr>"

text \<open>
  The same world with a full document inline in the location string: the base64 text
  decodes to a document with the name \<open>Cat\<close>, the description \<open>A cat\<close> and the image
  \<open>ipfs://img\<close>.
\<close>

definition cat_base64 :: string where
  "cat_base64 =
     ''eyJuYW1lIjoiQ2F0IiwiZGVzY3JpcHRpb24iOiJBIGNhdCIsImltYWdlIjoiaXBmczovL2ltZyJ9''"

definition cat_document :: string where
  "cat_document =
     ''{\"name\":\"Cat\",\"description\":\"A cat\",\"image\":\"ipfs://img\"}''"

definition world_inline :: env where
  "world_inline =
     world\<lparr>tokenURI := (\<lambda>i. Inr (''data:application/json;base64,'' @ cat_base64)),
           atob := (\<lambda>d. if d = cat_base64 then Inr cat_document
                        else Inl (Error ''InvalidCharacterError'')),
           json_parse :=
             (\<lambda>d. if d = cat_document
                  then Inr (Some \<lparr>js_name = Some ''Cat'', js_description = Some ''A cat'',
                                  js_image = Some ''ipfs://img''\<rparr>)
                  else Inl (Error ''SyntaxError''))\<rparr>"

text \<open>
  A world whose location string is a content reference: the inline decoding fails and
  the gateway answers with a document that has a name and an image but no description.
\<close>

definition world_gateway :: env where
  "world_gateway =
     world\<lparr>tokenURI := (\<lambda>i. Inr ''ipfs://QmMeta''),
           fetch :=
             (\<lambda>u. if u = ''https://w3s.link/ipfs/QmMeta''
                  then Inr \<lparr>ok = True, statusText = ''OK'',
                            json = Inr (Some \<lparr>js_name = Some ''Fish'', js_description = None,
                                              js_image = Some ''ipfs://QmFish''\<rparr>)\<rparr>
                  else Inl (Error ''Failed to fetch''))\<rparr>"

text \<open>Worlds in which one stage of the mint flow fails.\<close>

definition world_image_rejected :: env where
  "world_image_rejected = world\<lparr>uploadToIPFS := (\<lambda>f. Inl (NonError ''quota exceeded''))\<rparr>"

definition world_metadata_rejected :: env where
  "world_metadata_rejected =
     world\<lparr>uploadMetadataToIPFS := (\<lambda>m. Inl (Error ''pin failed''))\<rparr>"

definition world_mint_rejected :: env where
  "world_mint_rejected = world\<lparr>mintNFT := (\<lambda>u. Inl (Error ''user rejected''))\<rparr>"

definition world_reverted :: env where
  "world_reverted = world\<lparr>tx_wait := (\<lambda>t. Inl (Error ''reverted''))\<rparr>"

text \<open>Worlds in which the location string cannot be read, or resolves to nothing.\<close>

definition world_no_token :: env where
  "world_no_token = world\<lparr>tokenURI := (\<lambda>i. Inl (Error ''no such token''))\<rparr>"

definition world_unreachable :: env where
  "world_unreachable = world\<lparr>tokenURI := (\<lambda>i. Inr ''ipfs://QmMeta'')\<rparr>"

text \<open>The initial values of the \<open>useState\<close> hooks.\<close>

definition app_initial :: app_state where
  "app_initial =
     \<lparr>nfts = [], loading = True, error = None, account = None, isConnecting = False\<rparr>"

definition minter_initial :: minter_state where
  "minter_initial =
     \<lparr>selected_file = None, form_name = [], form_description = [], contract = None,
      signer = None,
      mintingState = \<lparr>isMinting = False, mint_error = None, success = False\<rparr>,
      previewUrl = None\<rparr>"

definition old_item :: nft where
  "old_item = \<lparr>name = ''Dog'', description = ''minted by 0xA'', image_ref = Some ''ipfs://dog''\<rparr>"

text \<open>Account \<open>0xA\<close> is connected, shows one item, and has filled in the form.\<close>

definition connected :: system where
  "connected =
     \<lparr>app = \<lparr>nfts = [old_item], loading = False, error = None, account = Some ''0xA'',
             isConnecting = False\<rparr>,
      minter =
        \<lparr>selected_file = Some ''PNG'', form_name = ''Cat'', form_description = ''A cat'',
         contract = Some (Contract NFT_MINTER_CONTRACT_ADDRESS (Signer ''0xA'')),
         signer = Some (Signer ''0xA''),
         mintingState = \<lparr>isMinting = False, mint_error = None, success = False\<rparr>,
         previewUrl = Some ''blob:1''\<rparr>\<rparr>"

section \<open>Wallet session: properties\<close>

text \<open>
  C8. When no wallet provider is injected, \<open>connectWallet\<close> only writes the
  provider-missing message to the banner: the account is as it was (unset where it was
  unset), no other field changes, and no request is issued.
\<close>

theorem connectWallet_no_provider:
  assumes "\<not> ethereum e"
  shows "error (fst (connectWallet e s)) = Some ''Please install MetaMask to use this application''
       \<and> account (fst (connectWallet e s)) = account s
       \<and> fst (connectWallet e s)
           = s\<lparr>error := Some ''Please install MetaMask to use this application''\<rparr>
       \<and> snd (connectWallet e s) = []"
  using assms by (simp add: connectWallet_def)

theorem connectWallet_no_provider_witness:
  "\<not> ethereum (world\<lparr>ethereum := False\<rparr>)
   \<and> error (fst (connectWallet (world\<lparr>ethereum := False\<rparr>) app_initial))
       = Some ''Please install MetaMask to use this application''
   \<and> account (fst (connectWallet (world\<lparr>ethereum := False\<rparr>) app_initial)) = None
   \<and> snd (connectWallet (world\<lparr>ethereum := False\<rparr>) app_initial) = []"
  using connectWallet_no_provider [of "world\<lparr>ethereum := False\<rparr>" app_initial]
  by (simp add: world_def app_initial_def)

text \<open>
  C10. When a provider is present and the account request fails, whatever the failure,
  the account is \<open>null\<close> afterwards, also when one was active before; the banner
  shows the connection failure and exactly one request was issued.
\<close>

theorem connectWallet_request_fails:
  assumes "ethereum e" and "request_accounts e = Inl err"
  shows "account (fst (connectWallet e s)) = None
       \<and> error (fst (connectWallet e s)) = Some ''Failed to connect wallet. Please try again.''
       \<and> isConnecting (fst (connectWallet e s)) = False
       \<and> snd (connectWallet e s) = [EthRequestAccounts]"
  using assms by (simp add: connectWallet_def)

theorem connectWallet_request_fails_witness:
  "ethereum (world\<lparr>request_accounts := Inl (NonError ''4001'')\<rparr>)
   \<and> request_accounts (world\<lparr>request_accounts := Inl (NonError ''4001'')\<rparr>) = Inl (NonError ''4001'')
   \<and> account (app connected) = Some ''0xA''
   \<and> account (fst (connectWallet (world\<lparr>request_accounts := Inl (NonError ''4001'')\<rparr>) (app connected)))
       = None
   \<and> error (fst (connectWallet (world\<lparr>request_accounts := Inl (NonError ''4001'')\<rparr>) (app connected)))
       = Some ''Failed to connect wallet. Please try again.''"
  using connectWallet_request_fails
    [of "world\<lparr>request_accounts := Inl (NonError ''4001'')\<rparr>" "NonError ''4001''"
     "app connected"]
  by (simp add: world_def connected_def)

text \<open>
  C9. An \<open>accountsChanged\<close> event with an empty list, listeners and effects included,
  leaves the account, the signer and the contract handle all \<open>null\<close>, and issues no call.
\<close>

theorem accountsChanged_empty:
  "account (app (fst (accountsChanged e [] sys))) = None
   \<and> signer (minter (fst (accountsChanged e [] sys))) = None
   \<and> contract (minter (fst (accountsChanged e [] sys))) = None
   \<and> snd (accountsChanged e [] sys) = []"
  by (simp add: accountsChanged_def run_listeners_def account_effects_def
      handleAccountsChanged_def minter_handleAccountsChanged_def index_js_def
      init_def fetchNFTs_def)

theorem accountsChanged_empty_witness:
  "account (app connected) = Some ''0xA''
   \<and> signer (minter connected) = Some (Signer ''0xA'')
   \<and> account (app (fst (accountsChanged world [] connected))) = None
   \<and> signer (minter (fst (accountsChanged world [] connected))) = None
   \<and> contract (minter (fst (accountsChanged world [] connected))) = None"
  using accountsChanged_empty [of world connected]
  by (simp add: connected_def)

section \<open>Mint submission: properties\<close>

text \<open>Past both guards, \<open>handleMint\<close> is the \<open>try\<close> block on the selected file.\<close>

lemma handleMint_runs_flow:
  assumes "selected_file (minter sys) = Some f"
    and "form_name (minter sys) \<noteq> []"
    and "form_description (minter sys) \<noteq> []"
    and "\<not> falsy (account (app sys))"
    and "contract (minter sys) \<noteq> None"
    and "signer (minter sys) \<noteq> None"
  shows "handleMint e sys = mint_flow e f sys"
  using assms by (auto simp: handleMint_def)

text \<open>Writing the error flags touches nothing but \<open>mintingState\<close>.\<close>

lemma set_mint_error_fields:
  "app (set_mint_error msg sys) = app sys"
  "mintingState (minter (set_mint_error msg sys))
     = \<lparr>isMinting = False, mint_error = Some msg, success = False\<rparr>"
  "selected_file (minter (set_mint_error msg sys)) = selected_file (minter sys)"
  "form_name (minter (set_mint_error msg sys)) = form_name (minter sys)"
  "form_description (minter (set_mint_error msg sys)) = form_description (minter sys)"
  "previewUrl (minter (set_mint_error msg sys)) = previewUrl (minter sys)"
  by (simp_all add: set_mint_error_def)

text \<open>
  C1. A submission with a file, a name, a description, an account, a contract handle and
  a signer, in which both uploads, the mint call and the confirmation wait succeed,
  appends exactly one item to the gallery, made of the submitted name and description and
  of the reference the image upload returned; it empties the file, name, description and
  preview, sets the success flag and clears the error.
\<close>

theorem handleMint_success:
  assumes "selected_file (minter sys) = Some f"
    and "form_name (minter sys) \<noteq> []"
    and "form_description (minter sys) \<noteq> []"
    and "\<not> falsy (account (app sys))"
    and "contract (minter sys) \<noteq> None"
    and "signer (minter sys) \<noteq> None"
    and "uploadToIPFS e f = Inr imageUri"
    and "uploadMetadataToIPFS e (metadata_of sys imageUri) = Inr metadataUri"
    and "mintNFT e metadataUri = Inr t"
    and "tx_wait e t = Inr rcpt"
  shows "nfts (app (fst (handleMint e sys)))
           = nfts (app sys) @ [\<lparr>name = form_name (minter sys),
                                 description = form_description (minter sys),
                                 image_ref = Some imageUri\<rparr>]
       \<and> length (nfts (app (fst (handleMint e sys)))) = length (nfts (app sys)) + 1
       \<and> selected_file (minter (fst (handleMint e sys))) = None
       \<and> form_name (minter (fst (handleMint e sys))) = []
       \<and> form_description (minter (fst (handleMint e sys))) = []
       \<and> previewUrl (minter (fst (handleMint e sys))) = None
       \<and> mintingState (minter (fst (handleMint e sys)))
           = \<lparr>isMinting = False, mint_error = None, success = True\<rparr>
       \<and> snd (handleMint e sys)
           = [UploadToIPFS f, UploadMetadataToIPFS (metadata_of sys imageUri),
              MintNFT metadataUri, TxWait t]"
proof -
  have "handleMint e sys = mint_flow e f sys"
    using assms(1-6) by (rule handleMint_runs_flow)
  also have "\<dots> = (mint_succeeded imageUri sys,
      [UploadToIPFS f, UploadMetadataToIPFS (metadata_of sys imageUri),
       MintNFT metadataUri, TxWait t])"
    using assms(7-10) by (simp add: mint_flow_def)
  finally show ?thesis
    by (simp add: mint_succeeded_def handleNFTCreated_def)
qed

theorem handleMint_success_witness:
  "selected_file (minter connected) = Some ''PNG''
   \<and> form_name (minter connected) \<noteq> []
   \<and> form_description (minter connected) \<noteq> []
   \<and> \<not> falsy (account (app connected))
   \<and> contract (minter connected) \<noteq> None
   \<and> signer (minter connected) \<noteq> None
   \<and> uploadToIPFS world ''PNG'' = Inr ''ipfs://img''
   \<and> uploadMetadataToIPFS world (metadata_of connected ''ipfs://img'') = Inr ''ipfs://meta''
   \<and> mintNFT world ''ipfs://meta'' = Inr (Tx ''0x1'')
   \<and> tx_wait world (Tx ''0x1'') = Inr (Receipt ''0x1'')
   \<and> nfts (app (fst (handleMint world connected)))
       = [old_item, \<lparr>name = ''Cat'', description = ''A cat'', image_ref = Some ''ipfs://img''\<rparr>]
   \<and> selected_file (minter (fst (handleMint world connected))) = None
   \<and> form_name (minter (fst (handleMint world connected))) = []
   \<and> form_description (minter (fst (handleMint world connected))) = []
   \<and> previewUrl (minter (fst (handleMint world connected))) = None
   \<and> success (mintingState (minter (fst (handleMint world connected))))"
  using handleMint_success
    [of connected "''PNG''" world "''ipfs://img''" "''ipfs://meta''" "Tx ''0x1''"
        "Receipt ''0x1''"]
  by (simp add: world_def connected_def)

text \<open>
  C2. A submission without a file, or with an empty name or description, or without an
  account, a contract handle or a signer, writes one of the two fixed error messages
  with \<open>isMinting\<close> and \<open>success\<close> false, and does nothing else: no call is issued
  (neither upload nor mint), the form fields and the gallery are as before.
\<close>

theorem handleMint_precondition:
  assumes "selected_file (minter sys) = None \<or> form_name (minter sys) = []
         \<or> form_description (minter sys) = [] \<or> falsy (account (app sys))
         \<or> contract (minter sys) = None \<or> signer (minter sys) = None"
  shows "snd (handleMint e sys) = []
       \<and> isMinting (mintingState (minter (fst (handleMint e sys)))) = False
       \<and> success (mintingState (minter (fst (handleMint e sys)))) = False
       \<and> mint_error (mintingState (minter (fst (handleMint e sys))))
           \<in> {Some ''Please fill in all fields'', Some ''Please connect your wallet first''}
       \<and> app (fst (handleMint e sys)) = app sys
       \<and> selected_file (minter (fst (handleMint e sys))) = selected_file (minter sys)
       \<and> form_name (minter (fst (handleMint e sys))) = form_name (minter sys)
       \<and> form_description (minter (fst (handleMint e sys))) = form_description (minter sys)
       \<and> previewUrl (minter (fst (handleMint e sys))) = previewUrl (minter sys)"
  using assms
  by (auto simp: handleMint_def set_mint_error_def split: option.splits)

theorem handleMint_precondition_witness:
  "form_name (minter (connected\<lparr>minter := (minter connected)\<lparr>form_name := []\<rparr>\<rparr>)) = []
   \<and> snd (handleMint world (connected\<lparr>minter := (minter connected)\<lparr>form_name := []\<rparr>\<rparr>)) = []
   \<and> mint_error (mintingState (minter (fst (handleMint world
         (connected\<lparr>minter := (minter connected)\<lparr>form_name := []\<rparr>\<rparr>)))))
       = Some ''Please fill in all fields''
   \<and> nfts (app (fst (handleMint world
         (connected\<lparr>minter := (minter connected)\<lparr>form_name := []\<rparr>\<rparr>)))) = [old_item]
   \<and> selected_file (minter (fst (handleMint world
         (connected\<lparr>minter := (minter connected)\<lparr>form_name := []\<rparr>\<rparr>)))) = Some ''PNG''
   \<and> falsy (account (app (connected\<lparr>app := (app connected)\<lparr>account := None\<rparr>\<rparr>)))
   \<and> snd (handleMint world (connected\<lparr>app := (app connected)\<lparr>account := None\<rparr>\<rparr>)) = []
   \<and> mint_error (mintingState (minter (fst (handleMint world
         (connected\<lparr>app := (app connected)\<lparr>account := None\<rparr>\<rparr>)))))
       = Some ''Please connect your wallet first''"
  using
    handleMint_precondition
      [of "connected\<lparr>minter := (minter connected)\<lparr>form_name := []\<rparr>\<rparr>" world]
    handleMint_precondition
      [of "connected\<lparr>app := (app connected)\<lparr>account := None\<rparr>\<rparr>" world]
  by (simp add: connected_def handleMint_def set_mint_error_def)

text \<open>The mint flow at each stage that can fail.\<close>

lemma mint_flow_stage1:
  assumes "uploadToIPFS e f = Inl err"
  shows "mint_flow e f sys
           = (set_mint_error (message_or err ''Failed to mint NFT'') sys, [UploadToIPFS f])"
  using assms by (simp add: mint_flow_def)

lemma mint_flow_stage2:
  assumes "uploadToIPFS e f = Inr imageUri"
    and "uploadMetadataToIPFS e (metadata_of sys imageUri) = Inl err"
  shows "mint_flow e f sys
           = (set_mint_error (message_or err ''Failed to mint NFT'') sys,
              [UploadToIPFS f, UploadMetadataToIPFS (metadata_of sys imageUri)])"
  using assms by (simp add: mint_flow_def)

lemma mint_flow_stage3:
  assumes "uploadToIPFS e f = Inr imageUri"
    and "uploadMetadataToIPFS e (metadata_of sys imageUri) = Inr metadataUri"
    and "mintNFT e metadataUri = Inl err"
  shows "mint_flow e f sys
           = (set_mint_error (message_or err ''Failed to mint NFT'') sys,
              [UploadToIPFS f, UploadMetadataToIPFS (metadata_of sys imageUri),
               MintNFT metadataUri])"
  using assms by (simp add: mint_flow_def)

lemma mint_flow_stage4:
  assumes "uploadToIPFS e f = Inr imageUri"
    and "uploadMetadataToIPFS e (metadata_of sys imageUri) = Inr metadataUri"
    and "mintNFT e metadataUri = Inr t"
    and "tx_wait e t = Inl err"
  shows "mint_flow e f sys
           = (set_mint_error (message_or err ''Failed to mint NFT'') sys,
              [UploadToIPFS f, UploadMetadataToIPFS (metadata_of sys imageUri),
               MintNFT metadataUri, TxWait t])"
  using assms by (simp add: mint_flow_def)

text \<open>
  C3, as stated, fails on the message: the image upload is rejected with a value that
  is not an \<open>Error\<close> and says \<open>quota exceeded\<close>; the error shown is the fixed text
  \<open>Failed to mint NFT\<close>, which is not what the failure says.
\<close>

theorem handleMint_failure_message_counterexample:
  "selected_file (minter connected) = Some ''PNG''
   \<and> form_name (minter connected) \<noteq> [] \<and> form_description (minter connected) \<noteq> []
   \<and> \<not> falsy (account (app connected))
   \<and> contract (minter connected) \<noteq> None \<and> signer (minter connected) \<noteq> None
   \<and> uploadToIPFS world_image_rejected ''PNG'' = Inl (NonError ''quota exceeded'')
   \<and> mint_error (mintingState (minter (fst (handleMint world_image_rejected connected))))
       = Some ''Failed to mint NFT''
   \<and> mint_error (mintingState (minter (fst (handleMint world_image_rejected connected))))
       \<noteq> Some ''quota exceeded''"
  by (simp add: world_image_rejected_def world_def connected_def handleMint_def
      mint_flow_def set_mint_error_def)

text \<open>
  C3, amended. Once the preconditions hold, a failure of the image upload, of the
  metadata upload, of the mint call or of the confirmation wait ends the flow at that
  stage: the calls issued are exactly those up to and including the one that failed,
  so no later stage is attempted and nothing undoes an upload. The state afterwards is
  the state before with only the minting flags rewritten: \<open>isMinting\<close> and \<open>success\<close>
  false, and as the error the failure's message when the failure is an \<open>Error\<close>, the
  fixed text \<open>Failed to mint NFT\<close> otherwise. The gallery is unchanged and the form
  keeps its file, name, description and preview.
\<close>

theorem handleMint_failure:
  assumes "selected_file (minter sys) = Some f"
    and "form_name (minter sys) \<noteq> []"
    and "form_description (minter sys) \<noteq> []"
    and "\<not> falsy (account (app sys))"
    and "contract (minter sys) \<noteq> None"
    and "signer (minter sys) \<noteq> None"
  shows "(uploadToIPFS e f = Inl err \<longrightarrow>
            handleMint e sys
              = (sys\<lparr>minter := (minter sys)\<lparr>mintingState :=
                   \<lparr>isMinting = False,
                    mint_error = Some (case err of Error m \<Rightarrow> m
                                       | NonError v \<Rightarrow> ''Failed to mint NFT''),
                    success = False\<rparr>\<rparr>\<rparr>,
                 [UploadToIPFS f]))
       \<and> (uploadToIPFS e f = Inr imageUri
            \<and> uploadMetadataToIPFS e
                  \<lparr>md_name = form_name (minter sys),
                   md_description = form_description (minter sys),
                   md_image = imageUri\<rparr> = Inl err \<longrightarrow>
            handleMint e sys
              = (sys\<lparr>minter := (minter sys)\<lparr>mintingState :=
                   \<lparr>isMinting = False,
                    mint_error = Some (case err of Error m \<Rightarrow> m
                                       | NonError v \<Rightarrow> ''Failed to mint NFT''),
                    success = False\<rparr>\<rparr>\<rparr>,
                 [UploadToIPFS f,
                  UploadMetadataToIPFS
                    \<lparr>md_name = form_name (minter sys),
                     md_description = form_description (minter sys),
                     md_image = imageUri\<rparr>]))
       \<and> (uploadToIPFS e f = Inr imageUri
            \<and> uploadMetadataToIPFS e
                  \<lparr>md_name = form_name (minter sys),
                   md_description = form_description (minter sys),
                   md_image = imageUri\<rparr> = Inr metadataUri
            \<and> mintNFT e metadataUri = Inl err \<longrightarrow>
            handleMint e sys
              = (sys\<lparr>minter := (minter sys)\<lparr>mintingState :=
                   \<lparr>isMinting = False,
                    mint_error = Some (case err of Error m \<Rightarrow> m
                                       | NonError v \<Rightarrow> ''Failed to mint NFT''),
                    success = False\<rparr>\<rparr>\<rparr>,
                 [UploadToIPFS f,
                  UploadMetadataToIPFS
                    \<lparr>md_name = form_name (minter sys),
                     md_description = form_description (minter sys),
                     md_image = imageUri\<rparr>,
                  MintNFT metadataUri]))
       \<and> (uploadToIPFS e f = Inr imageUri
            \<and> uploadMetadataToIPFS e
                  \<lparr>md_name = form_name (minter sys),
                   md_description = form_description (minter sys),
                   md_image = imageUri\<rparr> = Inr metadataUri
            \<and> mintNFT e metadataUri = Inr t
            \<and> tx_wait e t = Inl err \<longrightarrow>
            handleMint e sys
              = (sys\<lparr>minter := (minter sys)\<lparr>mintingState :=
                   \<lparr>isMinting = False,
                    mint_error = Some (case err of Error m \<Rightarrow> m
                                       | NonError v \<Rightarrow> ''Failed to mint NFT''),
                    success = False\<rparr>\<rparr>\<rparr>,
                 [UploadToIPFS f,
                  UploadMetadataToIPFS
                    \<lparr>md_name = form_name (minter sys),
                     md_description = form_description (minter sys),
                     md_image = imageUri\<rparr>,
                  MintNFT metadataUri, TxWait t]))"
proof -
  have run: "handleMint e sys = mint_flow e f sys"
    using assms by (rule handleMint_runs_flow)
  have msg: "message_or err ''Failed to mint NFT''
      = (case err of Error m \<Rightarrow> m | NonError v \<Rightarrow> ''Failed to mint NFT'')"
    by (cases err) simp_all
  have md: "\<And>imageUri.
      \<lparr>md_name = form_name (minter sys), md_description = form_description (minter sys),
       md_image = imageUri\<rparr> = metadata_of sys imageUri"
    by (simp add: metadata_of_def)
  show ?thesis
    unfolding run md
    by (intro conjI impI)
      (simp_all add: mint_flow_stage1 mint_flow_stage2 mint_flow_stage3 mint_flow_stage4
        set_mint_error_def msg)
qed

theorem handleMint_failure_witness:
  "selected_file (minter connected) = Some ''PNG''
   \<and> form_name (minter connected) \<noteq> [] \<and> form_description (minter connected) \<noteq> []
   \<and> \<not> falsy (account (app connected))
   \<and> contract (minter connected) \<noteq> None \<and> signer (minter connected) \<noteq> None
   \<and> uploadToIPFS world_image_rejected ''PNG'' = Inl (NonError ''quota exceeded'')
   \<and> snd (handleMint world_image_rejected connected) = [UploadToIPFS ''PNG'']
   \<and> mintingState (minter (fst (handleMint world_image_rejected connected)))
       = \<lparr>isMinting = False, mint_error = Some ''Failed to mint NFT'', success = False\<rparr>
   \<and> uploadToIPFS world_metadata_rejected ''PNG'' = Inr ''ipfs://img''
   \<and> uploadMetadataToIPFS world_metadata_rejected
         \<lparr>md_name = ''Cat'', md_description = ''A cat'', md_image = ''ipfs://img''\<rparr>
       = Inl (Error ''pin failed'')
   \<and> snd (handleMint world_metadata_rejected connected)
       = [UploadToIPFS ''PNG'',
          UploadMetadataToIPFS
            \<lparr>md_name = ''Cat'', md_description = ''A cat'', md_image = ''ipfs://img''\<rparr>]
   \<and> mint_error (mintingState (minter (fst (handleMint world_metadata_rejected connected))))
       = Some ''pin failed''
   \<and> mintNFT world_mint_rejected ''ipfs://meta'' = Inl (Error ''user rejected'')
   \<and> snd (handleMint world_mint_rejected connected)
       = [UploadToIPFS ''PNG'',
          UploadMetadataToIPFS
            \<lparr>md_name = ''Cat'', md_description = ''A cat'', md_image = ''ipfs://img''\<rparr>,
          MintNFT ''ipfs://meta'']
   \<and> mint_error (mintingState (minter (fst (handleMint world_mint_rejected connected))))
       = Some ''user rejected''
   \<and> mintNFT world_reverted ''ipfs://meta'' = Inr (Tx ''0x1'')
   \<and> tx_wait world_reverted (Tx ''0x1'') = Inl (Error ''reverted'')
   \<and> snd (handleMint world_reverted connected)
       = [UploadToIPFS ''PNG'',
          UploadMetadataToIPFS
            \<lparr>md_name = ''Cat'', md_description = ''A cat'', md_image = ''ipfs://img''\<rparr>,
          MintNFT ''ipfs://meta'', TxWait (Tx ''0x1'')]
   \<and> mintingState (minter (fst (handleMint world_reverted connected)))
       = \<lparr>isMinting = False, mint_error = Some ''reverted'', success = False\<rparr>
   \<and> app (fst (handleMint world_reverted connected)) = app connected
   \<and> nfts (app (fst (handleMint world_reverted connected))) = [old_item]
   \<and> selected_file (minter (fst (handleMint world_reverted connected))) = Some ''PNG''
   \<and> form_name (minter (fst (handleMint world_reverted connected))) = ''Cat''
   \<and> form_description (minter (fst (handleMint world_reverted connected))) = ''A cat''
   \<and> previewUrl (minter (fst (handleMint world_reverted connected))) = Some ''blob:1''"
  using
    handleMint_failure [where sys = connected and f = "''PNG''" and e = world_image_rejected
      and err = "NonError ''quota exceeded''" and imageUri = "''ipfs://img''"
      and metadataUri = "''ipfs://meta''" and t = "Tx ''0x1''"]
    handleMint_failure [where sys = connected and f = "''PNG''" and e = world_metadata_rejected
      and err = "Error ''pin failed''" and imageUri = "''ipfs://img''"
      and metadataUri = "''ipfs://meta''" and t = "Tx ''0x1''"]
    handleMint_failure [where sys = connected and f = "''PNG''" and e = world_mint_rejected
      and err = "Error ''user rejected''" and imageUri = "''ipfs://img''"
      and metadataUri = "''ipfs://meta''" and t = "Tx ''0x1''"]
    handleMint_failure [where sys = connected and f = "''PNG''" and e = world_reverted
      and err = "Error ''reverted''" and imageUri = "''ipfs://img''"
      and metadataUri = "''ipfs://meta''" and t = "Tx ''0x1''"]
  by (simp add: world_image_rejected_def world_metadata_rejected_def world_mint_rejected_def
      world_reverted_def world_def connected_def)

section \<open>Gallery loader: properties\<close>

text \<open>Resolving one token reads its location string once and yields at most one item.\<close>

lemma resolve_token_requests: "tokenURI_requests (snd (resolve_token e i)) = [i]"
  by (simp add: resolve_token_def split: sum.splits)

lemma resolve_token_length: "length (fst (resolve_token e i)) \<le> 1"
  by (simp add: resolve_token_def split: sum.splits)

lemma resolve_token_fails:
  assumes "tokenURI e i = Inl err
         \<or> (\<exists>uri err1 err2. tokenURI e i = Inr uri \<and> resolve_inline e i uri = Inl err1
               \<and> resolve_ipfs e i uri = Inl err2)"
  shows "fst (resolve_token e i) = []"
  using assms by (auto simp: resolve_token_def)

text \<open>The load with an account, a provider, a signer and a counter value other than zero.\<close>

lemma fetchNFTs_nonzero:
  assumes "\<not> falsy (account s)" and "ethereum e" and "getSigner e = Inr sg"
    and "getItemId e = Inr n" and "n \<noteq> 0"
  shows "fetchNFTs e s
           = (s\<lparr>nfts := fst (resolve_token e (n - 1)), loading := False\<rparr>,
              [GetSigner, GetItemId] @ snd (resolve_token e (n - 1)))"
  using assms by (simp add: fetchNFTs_def)

text \<open>The four ways in which resolving one token ends.\<close>

lemma resolve_inline_ok:
  assumes "atob e (case index_js (split_js CHR '','' uri) 1 of
                     None \<Rightarrow> ''undefined'' | Some d \<Rightarrow> d) = Inr decodedData"
    and "json_parse e decodedData = Inr (Some metadata)"
  shows "resolve_inline e i uri
           = Inr \<lparr>name = or_default (js_name metadata) (''NFT #'' @ show_int i),
                  description = or_default (js_description metadata)
                    ''This is an NFT minted on the Westend Asset Hub'',
                  image_ref = js_image metadata\<rparr>"
  using assms by (simp add: resolve_inline_def default_description_def)

lemma resolve_ipfs_ok:
  assumes "fetch e (getIpfsUrl e (replace_js ''ipfs://'' [] uri)) = Inr resp"
    and "ok resp" and "json resp = Inr (Some document)"
  shows "resolve_ipfs e i uri
           = Inr \<lparr>name = or_default (js_name document) (''NFT #'' @ show_int i),
                  description = or_default (js_description document)
                    ''This is an NFT minted on the Westend Asset Hub'',
                  image_ref =
                    Some (case js_image document of
                            None \<Rightarrow>
                              ''https://w3s.link/ipfs/QmXoypizjW3WknFiJnKLwHCnL72vedxjQkDDP1mXWo6uco''
                          | Some img \<Rightarrow>
                              (if img = [] then
                                 ''https://w3s.link/ipfs/QmXoypizjW3WknFiJnKLwHCnL72vedxjQkDDP1mXWo6uco''
                               else getIpfsUrl e (replace_js ''ipfs://'' [] img)))\<rparr>"
  using assms
  by (simp add: resolve_ipfs_def ipfs_url_def default_description_def default_image_def
      split: option.splits)

lemma resolve_token_no_uri:
  assumes "tokenURI e i = Inl err"
  shows "resolve_token e i = ([], [TokenURI i])"
  using assms by (simp add: resolve_token_def)

lemma resolve_token_inline:
  assumes "tokenURI e i = Inr uri" and "resolve_inline e i uri = Inr item"
  shows "resolve_token e i = ([item], [TokenURI i])"
  using assms by (simp add: resolve_token_def)

lemma resolve_token_gateway:
  assumes "tokenURI e i = Inr uri" and "resolve_inline e i uri = Inl inlineError"
    and "resolve_ipfs e i uri = Inr item"
  shows "resolve_token e i
           = ([item], [TokenURI i, Fetch (getIpfsUrl e (replace_js ''ipfs://'' [] uri))])"
  using assms by (simp add: resolve_token_def ipfs_url_def)

lemma resolve_token_nothing:
  assumes "tokenURI e i = Inr uri" and "resolve_inline e i uri = Inl inlineError"
    and "resolve_ipfs e i uri = Inl gatewayError"
  shows "resolve_token e i
           = ([], [TokenURI i, Fetch (getIpfsUrl e (replace_js ''ipfs://'' [] uri))])"
  using assms by (simp add: resolve_token_def ipfs_url_def)

text \<open>
  C5. A load with an account, a provider and a signer, in which the counter read returns
  a value \<open>n\<close> other than zero, asks the contract for the location string of token
  \<open>n - 1\<close> and of no other token, and leaves at most one item in the gallery. What it
  leaves is what that location string resolves to: the item built from the document
  decoded out of the string; or, when the decoding fails, the item built from the
  document fetched for the string; or nothing, when the string cannot be read or
  neither way yields a document. In each case the calls are the signer request, the
  counter read, the one read of the location string of token \<open>n - 1\<close>, and the fetch if
  the fallback ran.
\<close>

theorem fetchNFTs_latest_only:
  assumes "\<not> falsy (account s)" and "ethereum e" and "getSigner e = Inr sg"
    and "getItemId e = Inr n" and "n \<noteq> 0"
  shows "tokenURI_requests (snd (fetchNFTs e s)) = [n - 1]
       \<and> length (nfts (fst (fetchNFTs e s))) \<le> 1
       \<and> loading (fst (fetchNFTs e s)) = False
       \<and> (tokenURI e (n - 1) = Inl err \<longrightarrow>
            fetchNFTs e s
              = (s\<lparr>nfts := [], loading := False\<rparr>, [GetSigner, GetItemId, TokenURI (n - 1)]))
       \<and> (tokenURI e (n - 1) = Inr uri
            \<and> atob e (case index_js (split_js CHR '','' uri) 1 of
                        None \<Rightarrow> ''undefined'' | Some d \<Rightarrow> d) = Inr decodedData
            \<and> json_parse e decodedData = Inr (Some metadata) \<longrightarrow>
            fetchNFTs e s
              = (s\<lparr>nfts :=
                     [\<lparr>name = or_default (js_name metadata) (''NFT #'' @ show_int (n - 1)),
                       description = or_default (js_description metadata)
                         ''This is an NFT minted on the Westend Asset Hub'',
                       image_ref = js_image metadata\<rparr>],
                   loading := False\<rparr>,
                 [GetSigner, GetItemId, TokenURI (n - 1)]))
       \<and> (tokenURI e (n - 1) = Inr uri
            \<and> resolve_inline e (n - 1) uri = Inl inlineError
            \<and> fetch e (getIpfsUrl e (replace_js ''ipfs://'' [] uri)) = Inr resp
            \<and> ok resp \<and> json resp = Inr (Some document) \<longrightarrow>
            fetchNFTs e s
              = (s\<lparr>nfts :=
                     [\<lparr>name = or_default (js_name document) (''NFT #'' @ show_int (n - 1)),
                       description = or_default (js_description document)
                         ''This is an NFT minted on the Westend Asset Hub'',
                       image_ref =
                         Some (case js_image document of
                                 None \<Rightarrow>
                                   ''https://w3s.link/ipfs/QmXoypizjW3WknFiJnKLwHCnL72vedxjQkDDP1mXWo6uco''
                               | Some img \<Rightarrow>
                                   (if img = [] then
                                      ''https://w3s.link/ipfs/QmXoypizjW3WknFiJnKLwHCnL72vedxjQkDDP1mXWo6uco''
                                    else getIpfsUrl e (replace_js ''ipfs://'' [] img)))\<rparr>],
                   loading := False\<rparr>,
                 [GetSigner, GetItemId, TokenURI (n - 1),
                  Fetch (getIpfsUrl e (replace_js ''ipfs://'' [] uri))]))
       \<and> (tokenURI e (n - 1) = Inr uri
            \<and> resolve_inline e (n - 1) uri = Inl inlineError
            \<and> resolve_ipfs e (n - 1) uri = Inl gatewayError \<longrightarrow>
            fetchNFTs e s
              = (s\<lparr>nfts := [], loading := False\<rparr>,
                 [GetSigner, GetItemId, TokenURI (n - 1),
                  Fetch (getIpfsUrl e (replace_js ''ipfs://'' [] uri))]))"
proof -
  note run = fetchNFTs_nonzero [OF assms]
  have requests: "tokenURI_requests (snd (fetchNFTs e s)) = [n - 1]"
    by (simp add: run resolve_token_requests)
  have at_most_one: "length (nfts (fst (fetchNFTs e s))) \<le> 1"
    using resolve_token_length [of e "n - 1"] by (simp add: run)
  have loaded: "loading (fst (fetchNFTs e s)) = False"
    by (simp add: run)
  have no_uri: "fetchNFTs e s
      = (s\<lparr>nfts := [], loading := False\<rparr>, [GetSigner, GetItemId, TokenURI (n - 1)])"
    if "tokenURI e (n - 1) = Inl err"
    using that by (simp add: run resolve_token_no_uri)
  have inline: "fetchNFTs e s
      = (s\<lparr>nfts :=
             [\<lparr>name = or_default (js_name metadata) (''NFT #'' @ show_int (n - 1)),
               description = or_default (js_description metadata)
                 ''This is an NFT minted on the Westend Asset Hub'',
               image_ref = js_image metadata\<rparr>],
           loading := False\<rparr>,
         [GetSigner, GetItemId, TokenURI (n - 1)])"
    if "tokenURI e (n - 1) = Inr uri"
      and "atob e (case index_js (split_js CHR '','' uri) 1 of
                     None \<Rightarrow> ''undefined'' | Some d \<Rightarrow> d) = Inr decodedData"
      and "json_parse e decodedData = Inr (Some metadata)"
    using that(1) resolve_inline_ok [OF that(2,3), of "n - 1"]
    by (simp add: run resolve_token_inline)
  have gateway: "fetchNFTs e s
      = (s\<lparr>nfts :=
             [\<lparr>name = or_default (js_name document) (''NFT #'' @ show_int (n - 1)),
               description = or_default (js_description document)
                 ''This is an NFT minted on the Westend Asset Hub'',
               image_ref =
                 Some (case js_image document of
                         None \<Rightarrow>
                           ''https://w3s.link/ipfs/QmXoypizjW3WknFiJnKLwHCnL72vedxjQkDDP1mXWo6uco''
                       | Some img \<Rightarrow>
                           (if img = [] then
                              ''https://w3s.link/ipfs/QmXoypizjW3WknFiJnKLwHCnL72vedxjQkDDP1mXWo6uco''
                            else getIpfsUrl e (replace_js ''ipfs://'' [] img)))\<rparr>],
           loading := False\<rparr>,
         [GetSigner, GetItemId, TokenURI (n - 1),
          Fetch (getIpfsUrl e (replace_js ''ipfs://'' [] uri))])"
    if "tokenURI e (n - 1) = Inr uri" and "resolve_inline e (n - 1) uri = Inl inlineError"
      and "fetch e (getIpfsUrl e (replace_js ''ipfs://'' [] uri)) = Inr resp"
      and "ok resp" and "json resp = Inr (Some document)"
    using that(1,2) resolve_ipfs_ok [OF that(3,4,5), of "n - 1"]
    by (simp add: run resolve_token_gateway)
  have neither: "fetchNFTs e s
      = (s\<lparr>nfts := [], loading := False\<rparr>,
         [GetSigner, GetItemId, TokenURI (n - 1),
          Fetch (getIpfsUrl e (replace_js ''ipfs://'' [] uri))])"
    if "tokenURI e (n - 1) = Inr uri" and "resolve_inline e (n - 1) uri = Inl inlineError"
      and "resolve_ipfs e (n - 1) uri = Inl gatewayError"
    using that by (simp add: run resolve_token_nothing)
  show ?thesis
    by (intro conjI impI; (elim conjE)?;
        (rule requests at_most_one loaded | erule no_uri | erule (2) inline
         | erule (4) gateway | erule (2) neither))
qed

theorem fetchNFTs_latest_only_witness:
  "\<not> falsy (account (app connected)) \<and> nfts (app connected) = [old_item]
   \<and> ethereum world_inline \<and> getSigner world_inline = Inr (Signer ''0xA'')
   \<and> getItemId world_inline = Inr 3 \<and> (3::int) \<noteq> 0
   \<and> tokenURI world_inline (3 - 1) = Inr (''data:application/json;base64,'' @ cat_base64)
   \<and> tokenURI_requests (snd (fetchNFTs world_inline (app connected))) = [2]
   \<and> snd (fetchNFTs world_inline (app connected)) = [GetSigner, GetItemId, TokenURI 2]
   \<and> nfts (fst (fetchNFTs world_inline (app connected)))
       = [\<lparr>name = ''Cat'', description = ''A cat'', image_ref = Some ''ipfs://img''\<rparr>]
   \<and> snd (fetchNFTs world (app connected)) = [GetSigner, GetItemId, TokenURI 2]
   \<and> nfts (fst (fetchNFTs world (app connected)))
       = [\<lparr>name = ''NFT #2'',
           description = ''This is an NFT minted on the Westend Asset Hub'',
           image_ref = None\<rparr>]
   \<and> tokenURI world_gateway (3 - 1) = Inr ''ipfs://QmMeta''
   \<and> resolve_inline world_gateway (3 - 1) ''ipfs://QmMeta''
       = Inl (Error ''InvalidCharacterError'')
   \<and> snd (fetchNFTs world_gateway (app connected))
       = [GetSigner, GetItemId, TokenURI 2, Fetch ''https://w3s.link/ipfs/QmMeta'']
   \<and> nfts (fst (fetchNFTs world_gateway (app connected)))
       = [\<lparr>name = ''Fish'',
           description = ''This is an NFT minted on the Westend Asset Hub'',
           image_ref = Some ''https://w3s.link/ipfs/QmFish''\<rparr>]
   \<and> tokenURI world_no_token (3 - 1) = Inl (Error ''no such token'')
   \<and> snd (fetchNFTs world_no_token (app connected)) = [GetSigner, GetItemId, TokenURI 2]
   \<and> nfts (fst (fetchNFTs world_no_token (app connected))) = []
   \<and> resolve_inline world_unreachable (3 - 1) ''ipfs://QmMeta''
       = Inl (Error ''InvalidCharacterError'')
   \<and> resolve_ipfs world_unreachable (3 - 1) ''ipfs://QmMeta'' = Inl (Error ''Failed to fetch'')
   \<and> snd (fetchNFTs world_unreachable (app connected))
       = [GetSigner, GetItemId, TokenURI 2, Fetch ''https://w3s.link/ipfs/QmMeta'']
   \<and> nfts (fst (fetchNFTs world_unreachable (app connected))) = []"
  using
    fetchNFTs_latest_only [where s = "app connected" and e = world_inline
      and sg = "Signer ''0xA''" and n = 3
      and uri = "''data:application/json;base64,'' @ cat_base64"
      and decodedData = cat_document
      and metadata = "\<lparr>js_name = Some ''Cat'', js_description = Some ''A cat'',
                        js_image = Some ''ipfs://img''\<rparr>"]
    fetchNFTs_latest_only [where s = "app connected" and e = world
      and sg = "Signer ''0xA''" and n = 3
      and uri = "''data:application/json;base64,e30=''" and decodedData = "''{}''"
      and metadata = "\<lparr>js_name = None, js_description = None, js_image = None\<rparr>"]
    fetchNFTs_latest_only [where s = "app connected" and e = world_gateway
      and sg = "Signer ''0xA''" and n = 3 and uri = "''ipfs://QmMeta''"
      and inlineError = "Error ''InvalidCharacterError''"
      and resp = "\<lparr>ok = True, statusText = ''OK'',
                    json = Inr (Some \<lparr>js_name = Some ''Fish'', js_description = None,
                                      js_image = Some ''ipfs://QmFish''\<rparr>)\<rparr>"
      and document = "\<lparr>js_name = Some ''Fish'', js_description = None,
                        js_image = Some ''ipfs://QmFish''\<rparr>"]
    fetchNFTs_latest_only [where s = "app connected" and e = world_no_token
      and sg = "Signer ''0xA''" and n = 3 and err = "Error ''no such token''"]
    fetchNFTs_latest_only [where s = "app connected" and e = world_unreachable
      and sg = "Signer ''0xA''" and n = 3 and uri = "''ipfs://QmMeta''"
      and inlineError = "Error ''InvalidCharacterError''" and gatewayError = "Error ''Failed to fetch''"]
  by (simp add: world_inline_def world_gateway_def world_no_token_def world_unreachable_def
      world_def connected_def cat_base64_def cat_document_def
      resolve_inline_def resolve_ipfs_def ipfs_url_def index_js_def
      show_int_def show_nat.simps)

text \<open>
  C6. A load in which the counter read returns zero sets the gallery to the empty list;
  its calls are the signer request and the counter read only: no location string is
  read and nothing is fetched.
\<close>

theorem fetchNFTs_zero:
  assumes "\<not> falsy (account s)" and "ethereum e" and "getSigner e = Inr sg"
    and "getItemId e = Inr 0"
  shows "nfts (fst (fetchNFTs e s)) = []
       \<and> snd (fetchNFTs e s) = [GetSigner, GetItemId]
       \<and> tokenURI_requests (snd (fetchNFTs e s)) = []
       \<and> fetch_requests (snd (fetchNFTs e s)) = []"
  using assms by (simp add: fetchNFTs_def)

theorem fetchNFTs_zero_witness:
  "\<not> falsy (account (app connected)) \<and> ethereum (world\<lparr>getItemId := Inr 0\<rparr>)
   \<and> getSigner (world\<lparr>getItemId := Inr 0\<rparr>) = Inr (Signer ''0xA'')
   \<and> getItemId (world\<lparr>getItemId := Inr 0\<rparr>) = Inr 0
   \<and> nfts (app connected) = [old_item]
   \<and> nfts (fst (fetchNFTs (world\<lparr>getItemId := Inr 0\<rparr>) (app connected))) = []
   \<and> snd (fetchNFTs (world\<lparr>getItemId := Inr 0\<rparr>) (app connected)) = [GetSigner, GetItemId]"
  using fetchNFTs_zero [of "app connected" "world\<lparr>getItemId := Inr 0\<rparr>" "Signer ''0xA''"]
  by (simp add: world_def connected_def)

text \<open>
  C7. In a load that reaches the counter read: if the read of the location string fails,
  or if it succeeds and both the inline decoding and the fetch fallback fail, the gallery
  is set to the empty list and the banner keeps the value it had (\<open>setError\<close> is not
  called); if the counter read itself fails, the banner is set.
\<close>

theorem fetchNFTs_failures:
  assumes "\<not> falsy (account s)" and "ethereum e" and "getSigner e = Inr sg"
  shows "(getItemId e = Inl err \<longrightarrow>
            error (fst (fetchNFTs e s))
              = Some ''Could not fetch your NFTs. Please try again later.'')
       \<and> (getItemId e = Inr n \<and> n \<noteq> 0 \<and> tokenURI e (n - 1) = Inl err \<longrightarrow>
            nfts (fst (fetchNFTs e s)) = [] \<and> error (fst (fetchNFTs e s)) = error s)
       \<and> (getItemId e = Inr n \<and> n \<noteq> 0 \<and> tokenURI e (n - 1) = Inr uri
            \<and> resolve_inline e (n - 1) uri = Inl err1
            \<and> resolve_ipfs e (n - 1) uri = Inl err2 \<longrightarrow>
            nfts (fst (fetchNFTs e s)) = [] \<and> error (fst (fetchNFTs e s)) = error s)"
proof (intro conjI impI)
  assume "getItemId e = Inl err"
  with assms show "error (fst (fetchNFTs e s))
      = Some ''Could not fetch your NFTs. Please try again later.''"
    by (simp add: fetchNFTs_def)
next
  assume uri: "getItemId e = Inr n \<and> n \<noteq> 0 \<and> tokenURI e (n - 1) = Inl err"
  then have run: "fetchNFTs e s
      = (s\<lparr>nfts := fst (resolve_token e (n - 1)), loading := False\<rparr>,
         [GetSigner, GetItemId] @ snd (resolve_token e (n - 1)))"
    using assms by (simp add: fetchNFTs_nonzero)
  have none: "fst (resolve_token e (n - 1)) = []"
    using uri by (simp add: resolve_token_fails)
  show "nfts (fst (fetchNFTs e s)) = []" by (simp add: run none)
  show "error (fst (fetchNFTs e s)) = error s" by (simp add: run)
next
  assume both: "getItemId e = Inr n \<and> n \<noteq> 0 \<and> tokenURI e (n - 1) = Inr uri
      \<and> resolve_inline e (n - 1) uri = Inl err1 \<and> resolve_ipfs e (n - 1) uri = Inl err2"
  then have run: "fetchNFTs e s
      = (s\<lparr>nfts := fst (resolve_token e (n - 1)), loading := False\<rparr>,
         [GetSigner, GetItemId] @ snd (resolve_token e (n - 1)))"
    using assms by (simp add: fetchNFTs_nonzero)
  have none: "fst (resolve_token e (n - 1)) = []"
    using both by (intro resolve_token_fails) blast
  show "nfts (fst (fetchNFTs e s)) = []" by (simp add: run none)
  show "error (fst (fetchNFTs e s)) = error s" by (simp add: run)
qed

theorem fetchNFTs_failures_witness:
  "\<not> falsy (account (app connected)) \<and> ethereum world
   \<and> getSigner world = Inr (Signer ''0xA'')
   \<and> nfts (app connected) = [old_item] \<and> error (app connected) = None
   \<and> getItemId (world\<lparr>getItemId := Inl (Error ''rpc down'')\<rparr>) = Inl (Error ''rpc down'')
   \<and> error (fst (fetchNFTs (world\<lparr>getItemId := Inl (Error ''rpc down'')\<rparr>) (app connected)))
       = Some ''Could not fetch your NFTs. Please try again later.''
   \<and> tokenURI (world\<lparr>tokenURI := (\<lambda>i. Inl (Error ''no such token''))\<rparr>) (3 - 1)
       = Inl (Error ''no such token'')
   \<and> nfts (fst (fetchNFTs (world\<lparr>tokenURI := (\<lambda>i. Inl (Error ''no such token''))\<rparr>)
         (app connected))) = []
   \<and> error (fst (fetchNFTs (world\<lparr>tokenURI := (\<lambda>i. Inl (Error ''no such token''))\<rparr>)
         (app connected))) = None
   \<and> resolve_inline (world\<lparr>tokenURI := (\<lambda>i. Inr ''ipfs://QmMeta'')\<rparr>) (3 - 1) ''ipfs://QmMeta''
       = Inl (Error ''InvalidCharacterError'')
   \<and> resolve_ipfs (world\<lparr>tokenURI := (\<lambda>i. Inr ''ipfs://QmMeta'')\<rparr>) (3 - 1) ''ipfs://QmMeta''
       = Inl (Error ''Failed to fetch'')
   \<and> nfts (fst (fetchNFTs (world\<lparr>tokenURI := (\<lambda>i. Inr ''ipfs://QmMeta'')\<rparr>)
         (app connected))) = []
   \<and> error (fst (fetchNFTs (world\<lparr>tokenURI := (\<lambda>i. Inr ''ipfs://QmMeta'')\<rparr>)
         (app connected))) = None
   \<and> snd (fetchNFTs (world\<lparr>tokenURI := (\<lambda>i. Inr ''ipfs://QmMeta'')\<rparr>) (app connected))
       = [GetSigner, GetItemId, TokenURI 2, Fetch ''https://w3s.link/ipfs/QmMeta'']"
  using
    fetchNFTs_failures [of "app connected" "world\<lparr>getItemId := Inl (Error ''rpc down'')\<rparr>"
      "Signer ''0xA''" "Error ''rpc down''"]
    fetchNFTs_failures [of "app connected"
      "world\<lparr>tokenURI := (\<lambda>i. Inl (Error ''no such token''))\<rparr>" "Signer ''0xA''"
      "Error ''no such token''" 3]
    fetchNFTs_failures [of "app connected"
      "world\<lparr>tokenURI := (\<lambda>i. Inr ''ipfs://QmMeta'')\<rparr>" "Signer ''0xA''"
      _ 3 "''ipfs://QmMeta''" "Error ''InvalidCharacterError''" "Error ''Failed to fetch''"]
  by (simp add: world_def connected_def fetchNFTs_def resolve_token_def resolve_inline_def
      resolve_ipfs_def ipfs_url_def index_js_def)

section \<open>The gallery across an account change\<close>

text \<open>
  When the account changes to another one and the load reaches a counter value, the
  gallery is replaced: nothing of the old list survives.
\<close>

lemma accountsChanged_reload_replaces:
  assumes "index_js accounts 0 = Some a" and "a \<noteq> []" and "account (app sys) \<noteq> Some a"
    and "ethereum e" and "getSigner e = Inr sg" and "getItemId e = Inr n"
  shows "nfts (app (fst (accountsChanged e accounts sys)))
           = (if n = 0 then [] else fst (resolve_token e (n - 1)))"
  using assms
  by (auto simp: accountsChanged_def run_listeners_def account_effects_def
      handleAccountsChanged_def fetchNFTs_def)

text \<open>When the account list becomes empty, the loader returns early: the list stays.\<close>

lemma accountsChanged_empty_keeps_nfts:
  "nfts (app (fst (accountsChanged e [] sys))) = nfts (app sys)"
  by (simp add: accountsChanged_def run_listeners_def account_effects_def
      handleAccountsChanged_def index_js_def fetchNFTs_def)

text \<open>
  C4. The gallery is not discarded on every account change. When the account list
  becomes empty, the loader returns before touching the list, so the item loaded for
  \<open>0xA\<close> stays in the state. When the account changes to \<open>0xB\<close> and the counter read
  fails, only the banner is set: the item of \<open>0xA\<close> is still in the list and is what
  the page displays for \<open>0xB\<close>.
\<close>

theorem accountsChanged_keeps_stale_gallery:
  "nfts (app connected) = [old_item] \<and> account (app connected) = Some ''0xA''
   \<and> account (app (fst (accountsChanged world [] connected))) = None
   \<and> nfts (app (fst (accountsChanged world [] connected))) = [old_item]
   \<and> account (app (fst (accountsChanged (world\<lparr>getItemId := Inl (Error ''rpc down'')\<rparr>)
         [''0xB''] connected))) = Some ''0xB''
   \<and> nfts (app (fst (accountsChanged (world\<lparr>getItemId := Inl (Error ''rpc down'')\<rparr>)
         [''0xB''] connected))) = [old_item]
   \<and> displayed_gallery (app (fst (accountsChanged
         (world\<lparr>getItemId := Inl (Error ''rpc down'')\<rparr>) [''0xB''] connected)))
       = Some [old_item]"
  by (simp add: accountsChanged_def run_listeners_def account_effects_def
      handleAccountsChanged_def minter_handleAccountsChanged_def index_js_def
      init_def fetchNFTs_def displayed_gallery_def world_def connected_def)

end
